theory Spec2Isabelle
  imports Complex_Main "HOL-Library.AList" "HOL-Library.Multiset"
begin

section \<open>JavaScript values and objects\<close>

text \<open>
  The server and the client pass plain JavaScript objects around: request bodies, stored
  documents, spread copies \<^verbatim>\<open>{ ...a, ...b }\<close>. A value is one of the cases below; an
  object is its list of own properties, read by name (the first entry of a name is the
  property).
  \<open>JDate t\<close> is a \<^verbatim>\<open>Date\<close> object whose time value is \<open>t\<close> milliseconds.
\<close>

datatype jval =
    JUndefined
  | JNull
  | JBool bool
  | JNum real
  | JStr string
  | JDate nat
  | JArr "jval list"
  | JObj "(string \<times> jval) list"

type_synonym obj = "(string \<times> jval) list"

text \<open>Property read \<^verbatim>\<open>o.k\<close>: a missing property reads as \<^verbatim>\<open>undefined\<close>.\<close>

definition jget :: "obj \<Rightarrow> string \<Rightarrow> jval" where
  "jget ob k = (case map_of ob k of None \<Rightarrow> JUndefined | Some v \<Rightarrow> v)"

text \<open>Truthiness, as \<^verbatim>\<open>if (v)\<close>, \<^verbatim>\<open>!v\<close> and \<^verbatim>\<open>a || b\<close> test it.\<close>

fun truthy :: "jval \<Rightarrow> bool" where
  "truthy JUndefined = False"
| "truthy JNull = False"
| "truthy (JBool b) = b"
| "truthy (JNum n) = (n \<noteq> 0)"
| "truthy (JStr s) = (s \<noteq> [])"
| "truthy (JDate t) = True"
| "truthy (JArr xs) = True"
| "truthy (JObj ob) = True"

definition js_or :: "jval \<Rightarrow> jval \<Rightarrow> jval" where
  "js_or a b = (if truthy a then a else b)"

text \<open>
  Object spread \<^verbatim>\<open>{ ...a, ...b }\<close>: the properties of \<open>b\<close> are written one by one onto a
  copy of \<open>a\<close>, in place where \<open>a\<close> has the name and at the end otherwise (a later entry
  of a name that \<open>b\<close> lists twice is no property of \<open>b\<close>). An object literal
  \<^verbatim>\<open>{ ...a, k: v }\<close> is \<open>spread a [(k, v)]\<close>.
\<close>

definition spread :: "(string \<times> 'a) list \<Rightarrow> (string \<times> 'a) list \<Rightarrow> (string \<times> 'a) list" where
  "spread a b = fold (\<lambda>kv. AList.update (fst kv) (snd kv)) (AList.clearjunk b) a"

text \<open>
  Strict equality \<^verbatim>\<open>a === b\<close>: primitives are compared by value; two objects, arrays or
  dates met in this program are never the same reference (each comes from its own literal,
  spread or JSON text), so they compare unequal.
\<close>

fun strict_eq :: "jval \<Rightarrow> jval \<Rightarrow> bool" where
  "strict_eq (JArr xs) b = False"
| "strict_eq (JObj ob) b = False"
| "strict_eq (JDate t) b = False"
| "strict_eq a b = (a = b)"

text \<open>Decimal digits of a number, as \<^verbatim>\<open>n.toString()\<close> and array indices print them.\<close>

fun show_nat :: "nat \<Rightarrow> string" where
  "show_nat n =
     (if n < 10 then [''0123456789'' ! n]
      else show_nat (n div 10) @ [''0123456789'' ! (n mod 10)])"






section \<open>The environment: clock and key generator\<close>

text \<open>
  \<^verbatim>\<open>new Date()\<close>, \<^verbatim>\<open>Date.now()\<close>, \<^verbatim>\<open>randomUUID()\<close> and the store's push keys come from
  outside the program. The \<open>n\<close>-th reading of the clock is \<open>clock n\<close>, the \<open>n\<close>-th
  generated key is \<open>keys n\<close>; the state counts the readings taken so far.
\<close>

record world =
  clock :: "nat \<Rightarrow> nat"
  ticks :: nat
  keys :: "nat \<Rightarrow> string"
  drawn :: nat

definition Date_now :: "'a world_scheme \<Rightarrow> nat \<times> 'a world_scheme" where
  "Date_now w = (clock w (ticks w), w\<lparr>ticks := Suc (ticks w)\<rparr>)"

definition randomUUID :: "'a world_scheme \<Rightarrow> string \<times> 'a world_scheme" where
  "randomUUID w = (keys w (drawn w), w\<lparr>drawn := Suc (drawn w)\<rparr>)"

section \<open>server/storage.ts: MemStorage\<close>

text \<open>
  The four \<^verbatim>\<open>Map\<close>s of the class, in insertion order (\<^verbatim>\<open>Map.set\<close> replaces the value
  of a present key in place and appends a new key, as \<open>AList.update\<close> does;
  \<^verbatim>\<open>Map.get\<close> is \<open>map_of\<close>, with \<open>None\<close> for \<^verbatim>\<open>undefined\<close>). An operation takes
  the store and returns its result with the store after it. The sample units are put
  into their map under their own \<^verbatim>\<open>id\<close>, one after the other.
\<close>

record mem = world +
  users :: "(string \<times> obj) list"
  incidents :: "(string \<times> obj) list"
  chatMessages :: "(string \<times> obj) list"
  emergencyUnits :: "(string \<times> obj) list"

definition initializeSampleData :: "mem \<Rightarrow> mem" where
  "initializeSampleData s =
     (let (k0, s1) = randomUUID s;
          (t0, s2) = Date_now s1;
          dispatcher =
            [(''id'', JStr k0),
             (''phoneNumber'', JStr ''+233200000001''),
             (''role'', JStr ''dispatcher''),
             (''name'', JStr ''Sarah Mensah''),
             (''isActive'', JBool True),
             (''createdAt'', JDate t0)];
          s3 = s2\<lparr>users := AList.update k0 dispatcher (users s2)\<rparr>;
          (k1, s4) = randomUUID s3;
          (t1, s5) = Date_now s4;
          (k2, s6) = randomUUID s5;
          (t2, s7) = Date_now s6;
          (k3, s8) = randomUUID s7;
          (t3, s9) = Date_now s8;
          units =
            [[(''id'', JStr k1),
              (''callSign'', JStr ''Police-191-A''),
              (''unitType'', JStr ''police''),
              (''status'', JStr ''available''),
              (''location'', JObj [(''latitude'', JNum 5.6037), (''longitude'', JNum (- 0.1870)),
                                   (''address'', JStr ''Tema Station, Accra'')]),
              (''currentIncidentId'', JNull),
              (''createdAt'', JDate t1)],
             [(''id'', JStr k2),
              (''callSign'', JStr ''AMB-193-B''),
              (''unitType'', JStr ''ambulance''),
              (''status'', JStr ''available''),
              (''location'', JObj [(''latitude'', JNum 5.5950), (''longitude'', JNum (- 0.1900)),
                                   (''address'', JStr ''Ridge Hospital, Accra'')]),
              (''currentIncidentId'', JNull),
              (''createdAt'', JDate t2)],
             [(''id'', JStr k3),
              (''callSign'', JStr ''FIRE-192-A''),
              (''unitType'', JStr ''fire''),
              (''status'', JStr ''busy''),
              (''location'', JObj [(''latitude'', JNum 5.5800), (''longitude'', JNum (- 0.2100)),
                                   (''address'', JStr ''En Route'')]),
              (''currentIncidentId'', JNull),
              (''createdAt'', JDate t3)]]
      in fold (\<lambda>unit st.
                 (case jget unit ''id'' of
                    JStr k \<Rightarrow> st\<lparr>emergencyUnits := AList.update k unit (emergencyUnits st)\<rparr>
                  | _ \<Rightarrow> st))
              units s9)"

definition MemStorage_new :: "world \<Rightarrow> mem" where
  "MemStorage_new w =
     initializeSampleData
       \<lparr>clock = clock w, ticks = ticks w, keys = keys w, drawn = drawn w,
        users = [], incidents = [], chatMessages = [], emergencyUnits = []\<rparr>"

definition MemStorage_updateUser :: "string \<Rightarrow> obj \<Rightarrow> mem \<Rightarrow> obj option \<times> mem" where
  "MemStorage_updateUser uid updates s =
     (case map_of (users s) uid of
        None \<Rightarrow> (None, s)
      | Some user \<Rightarrow>
          (let updatedUser = spread user updates
           in (Some updatedUser, s\<lparr>users := AList.update uid updatedUser (users s)\<rparr>)))"

definition MemStorage_getIncident :: "string \<Rightarrow> mem \<Rightarrow> obj option" where
  "MemStorage_getIncident iid s = map_of (incidents s) iid"

definition MemStorage_createIncident :: "obj \<Rightarrow> mem \<Rightarrow> obj \<times> mem" where
  "MemStorage_createIncident incidentData s =
     (let (iid, s1) = randomUUID s;
          (t1, s2) = Date_now s1;
          (t2, s3) = Date_now s2;
          incident = spread incidentData
            [(''id'', JStr iid),
             (''status'', JStr ''new''),
             (''assignedUnitId'', JNull),
             (''assignedDispatcherId'', JNull),
             (''mediaUrls'', JArr []),
             (''description'', js_or (jget incidentData ''description'') JNull),
             (''createdAt'', JDate t1),
             (''updatedAt'', JDate t2)]
      in (incident, s3\<lparr>incidents := AList.update iid incident (incidents s3)\<rparr>))"

definition MemStorage_updateIncident :: "string \<Rightarrow> obj \<Rightarrow> mem \<Rightarrow> obj option \<times> mem" where
  "MemStorage_updateIncident iid updates s =
     (case map_of (incidents s) iid of
        None \<Rightarrow> (None, s)
      | Some incident \<Rightarrow>
          (let (t, s1) = Date_now s;
               updatedIncident = spread (spread incident updates) [(''updatedAt'', JDate t)]
           in (Some updatedIncident,
               s1\<lparr>incidents := AList.update iid updatedIncident (incidents s1)\<rparr>)))"


definition MemStorage_createChatMessage :: "obj \<Rightarrow> mem \<Rightarrow> obj \<times> mem" where
  "MemStorage_createChatMessage messageData s =
     (let (mid, s1) = randomUUID s;
          (t, s2) = Date_now s1;
          message = spread messageData
            [(''id'', JStr mid),
             (''messageType'', js_or (jget messageData ''messageType'') (JStr ''text'')),
             (''createdAt'', JDate t)]
      in (message, s2\<lparr>chatMessages := AList.update mid message (chatMessages s2)\<rparr>))"

definition MemStorage_updateEmergencyUnit :: "string \<Rightarrow> obj \<Rightarrow> mem \<Rightarrow> obj option \<times> mem" where
  "MemStorage_updateEmergencyUnit uid updates s =
     (case map_of (emergencyUnits s) uid of
        None \<Rightarrow> (None, s)
      | Some unit \<Rightarrow>
          (let updatedUnit = spread unit updates
           in (Some updatedUnit,
               s\<lparr>emergencyUnits := AList.update uid updatedUnit (emergencyUnits s)\<rparr>)))"

text \<open>
  Every chat message in the store carries a \<^verbatim>\<open>Date\<close> in \<^verbatim>\<open>createdAt\<close>. This holds in
  every store the class builds, since \<^verbatim>\<open>createChatMessage\<close> is the only writer of the map.
\<close>

definition chat_dated :: "mem \<Rightarrow> bool" where
  "chat_dated s = list_all (\<lambda>m. case jget m ''createdAt'' of JDate t \<Rightarrow> True | _ \<Rightarrow> False)
                    (map snd (chatMessages s))"

section \<open>server/firebase-storage.ts: FirebaseStorage\<close>













section \<open>shared/schema.ts: the insert schemas\<close>

text \<open>
  The schemas stand in the sources at the end of \<^verbatim>\<open>src/CrisisCommand/server/routes.ts\<close>.
  They are values of the validation library; \<open>zparse\<close> is its parser for the
  combinators the schemas use. It walks the schema, collects an issue for every value of
  the wrong type (a missing property reads as \<^verbatim>\<open>undefined\<close>), fills in defaults and
  copies only the properties the schema names. An issue is kept as its code and path.
\<close>

datatype zod =
    ZString
  | ZNumber
  | ZBoolean
  | ZEnum "string list"
  | ZOptional zod
  | ZDefault zod jval
  | ZObject "(string \<times> zod) list"

definition issue :: "string \<Rightarrow> string list \<Rightarrow> jval" where
  "issue code path = JObj [(''code'', JStr code), (''path'', JArr (map JStr path))]"

fun zparse :: "string list \<Rightarrow> zod \<Rightarrow> jval \<Rightarrow> jval list \<times> jval" where
  "zparse path ZString v =
     (case v of JStr s \<Rightarrow> ([], v) | _ \<Rightarrow> ([issue ''invalid_type'' path], v))"
| "zparse path ZNumber v =
     (case v of JNum n \<Rightarrow> ([], v) | _ \<Rightarrow> ([issue ''invalid_type'' path], v))"
| "zparse path ZBoolean v =
     (case v of JBool b \<Rightarrow> ([], v) | _ \<Rightarrow> ([issue ''invalid_type'' path], v))"
| "zparse path (ZEnum vs) v =
     (case v of
        JStr s \<Rightarrow> (if s \<in> set vs then ([], v) else ([issue ''invalid_enum_value'' path], v))
      | _ \<Rightarrow> ([issue ''invalid_type'' path], v))"
| "zparse path (ZOptional z) v =
     (if v = JUndefined then ([], JUndefined) else zparse path z v)"
| "zparse path (ZDefault z d) v =
     (if v = JUndefined then zparse path z d else zparse path z v)"
| "zparse path (ZObject shape) v =
     (case v of
        JObj ob \<Rightarrow>
          (let rs = map (\<lambda>kz. (fst kz, zparse (path @ [fst kz]) (snd kz) (jget ob (fst kz)))) shape
           in (concat (map (\<lambda>r. fst (snd r)) rs),
               JObj (map (\<lambda>r. (fst r, snd (snd r)))
                      (filter (\<lambda>r. snd (snd r) \<noteq> JUndefined \<or> fst r \<in> fst ` set ob) rs))))
      | _ \<Rightarrow> ([issue ''invalid_type'' path], v))"






section \<open>server/routes.ts: the route handlers\<close>










subsection \<open>The WebSocket server\<close>





section \<open>client/src/components: the login form and the dispatcher console\<close>

text \<open>
  Both components are in \<^verbatim>\<open>src/CrisisCommand/client/src/components/SimpleAuthLogin.tsx\<close>.
  The state of \<^verbatim>\<open>SimpleAuthLogin\<close> is its five state variables. \<open>handleSubmit\<close> gives the
  effects it asks for: an alert, or a timer with its delay in milliseconds whose callback
  holds the user object; \<open>login_timeout\<close> is that callback, its first result is the
  argument of \<^verbatim>\<open>onLogin\<close>.
\<close>

record login = world +
  phoneNumber :: string
  name :: string
  role :: string
  serviceId :: string
  isLoading :: bool

datatype effect = Alert string | SetTimeout nat obj

definition handleSubmit :: "login \<Rightarrow> effect list \<times> login" where
  "handleSubmit st =
     (if \<not> truthy (JStr (phoneNumber st)) \<or> \<not> truthy (JStr (name st))
      then ([Alert ''Please fill in all required fields''], st)
      else
        (let st1 = st\<lparr>isLoading := True\<rparr>;
             (t1, st2) = Date_now st1;
             (t2, st3) = Date_now st2;
             (t3, st4) = Date_now st3;
             user =
               [(''id'', JStr (show_nat t1)),
                (''phoneNumber'', JStr (phoneNumber st)),
                (''role'', JStr (role st)),
                (''serviceId'',
                   (if role st = ''responder'' \<or> role st = ''service_admin''
                    then JStr (serviceId st) else JUndefined)),
                (''name'', JStr (name st)),
                (''preferredLanguage'', JStr ''en''),
                (''isActive'', JBool True),
                (''createdAt'', JNum (real t2)),
                (''updatedAt'', JNum (real t3))]
         in ([SetTimeout 1000 user], st4)))"

definition login_timeout :: "obj \<Rightarrow> login \<Rightarrow> obj \<times> login" where
  "login_timeout user st = (user, st\<lparr>isLoading := False\<rparr>)"






section \<open>The report the specification asks for\<close>






section \<open>Example states\<close>

text \<open>Concrete stores and requests, used to run the theorems below on.\<close>

definition ex_incident :: obj where
  "ex_incident =
     [(''id'', JStr ''inc-1''), (''title'', JStr ''Fire at market''), (''type'', JStr ''fire''),
      (''status'', JStr ''new''), (''assignedUnitId'', JNull),
      (''createdAt'', JDate 1690000000000), (''updatedAt'', JDate 1690000000000)]"

definition ex_mem :: mem where
  "ex_mem = \<lparr>clock = (\<lambda>n. 1700000000000 + n), ticks = 0,
              keys = (\<lambda>n. ''key-'' @ show_nat n), drawn = 0,
              users = [], incidents = [(''inc-1'', ex_incident)],
              chatMessages =
                [(''m1'', [(''id'', JStr ''m1''), (''incidentId'', JStr ''inc-1''),
                           (''message'', JStr ''help''), (''createdAt'', JDate 30)]),
                 (''m2'', [(''id'', JStr ''m2''), (''incidentId'', JStr ''inc-2''),
                           (''message'', JStr ''other''), (''createdAt'', JDate 20)]),
                 (''m3'', [(''id'', JStr ''m3''), (''incidentId'', JStr ''inc-1''),
                           (''message'', JStr ''first''), (''createdAt'', JDate 10)])],
              emergencyUnits = []\<rparr>"

definition ex_payload :: obj where
  "ex_payload =
     [(''title'', JStr ''Robbery''), (''status'', JStr ''resolved''),
      (''assignedUnitId'', JStr ''unit-9''), (''assignedDispatcherId'', JStr ''user-9''),
      (''mediaUrls'', JArr [JStr ''/uploads/x.png''])]"











definition ex_login :: login where
  "ex_login = \<lparr>clock = (\<lambda>n. 1700000000000 + n), ticks = 0,
                keys = (\<lambda>n. ''key-'' @ show_nat n), drawn = 0,
                phoneNumber = ''+233200000009'', name = ''Nobody Known'',
                role = ''global_admin'', serviceId = [], isLoading = False\<rparr>"

definition ex_login_later :: login where
  "ex_login_later = ex_login\<lparr>clock := (\<lambda>n. 1700000060000 + n)\<rparr>"




section \<open>Properties of objects\<close>

declare zparse.simps [simp del]

lemma map_of_fold_update:
  "distinct (map fst xs) \<Longrightarrow>
   map_of (fold (\<lambda>kv. AList.update (fst kv) (snd kv)) xs a) = map_of a ++ map_of xs"
proof (induction xs arbitrary: a)
  case Nil
  then show ?case by simp
next
  case (Cons x xs)
  have absent: "map_of xs (fst x) = None"
    using Cons.prems by (simp add: map_of_eq_None_iff)
  have "map_of (fold (\<lambda>kv. AList.update (fst kv) (snd kv)) (x # xs) a) =
      (map_of a)(fst x \<mapsto> snd x) ++ map_of xs"
    using Cons by (simp add: AList.update_conv')
  also have "\<dots> = map_of a ++ map_of (x # xs)"
  proof
    fix k
    show "((map_of a)(fst x \<mapsto> snd x) ++ map_of xs) k = (map_of a ++ map_of (x # xs)) k"
      using absent by (cases "k = fst x") (simp_all add: map_add_def split: option.splits)
  qed
  finally show ?case .
qed

lemma map_of_spread: "map_of (spread a b) = map_of a ++ map_of b"
  by (simp add: spread_def map_of_fold_update AList.map_of_clearjunk)

lemma jget_spread:
  "jget (spread a b) k = (case map_of b k of None \<Rightarrow> jget a k | Some v \<Rightarrow> v)"
  by (simp add: jget_def map_of_spread map_add_def split: option.splits)

lemma map_of_absent: "k \<notin> fst ` set al \<Longrightarrow> map_of al k = None"
  by (simp add: map_of_eq_None_iff)

section \<open>MemStorage: creation defaults, missing ids, the frame of an update\<close>

text \<open>
  Claim C8. Whatever the insert payload holds, the incident that
  \<^verbatim>\<open>MemStorage.createIncident\<close> builds and stores has status \<^verbatim>\<open>"new"\<close>, no assigned unit,
  no assigned dispatcher and an empty media list: the literal writes these properties
  after the spread of the payload, so a payload that names them is overridden. The
  incident is stored under the generated id.
\<close>

theorem createIncident_defaults:
  "jget (fst (MemStorage_createIncident d s)) ''status'' = JStr ''new'' \<and>
   jget (fst (MemStorage_createIncident d s)) ''assignedUnitId'' = JNull \<and>
   jget (fst (MemStorage_createIncident d s)) ''assignedDispatcherId'' = JNull \<and>
   jget (fst (MemStorage_createIncident d s)) ''mediaUrls'' = JArr [] \<and>
   map_of (incidents (snd (MemStorage_createIncident d s))) (keys s (drawn s)) =
     Some (fst (MemStorage_createIncident d s))"
  by (simp add: MemStorage_createIncident_def randomUUID_def Date_now_def Let_def jget_spread
      AList.update_conv')

theorem createIncident_defaults_witness:
  "jget ex_payload ''status'' = JStr ''resolved'' \<and>
   jget (fst (MemStorage_createIncident ex_payload ex_mem)) ''status'' = JStr ''new'' \<and>
   jget (fst (MemStorage_createIncident ex_payload ex_mem)) ''assignedUnitId'' = JNull \<and>
   jget (fst (MemStorage_createIncident ex_payload ex_mem)) ''assignedDispatcherId'' = JNull \<and>
   jget (fst (MemStorage_createIncident ex_payload ex_mem)) ''mediaUrls'' = JArr [] \<and>
   map_of (incidents (snd (MemStorage_createIncident ex_payload ex_mem))) ''key-0'' =
     Some (fst (MemStorage_createIncident ex_payload ex_mem))"
  using createIncident_defaults [of ex_payload ex_mem]
  by (simp add: ex_payload_def ex_mem_def jget_def)

text \<open>
  Claim C9. For an id that is not a key of the map concerned, \<^verbatim>\<open>updateUser\<close>,
  \<^verbatim>\<open>updateIncident\<close> and \<^verbatim>\<open>updateEmergencyUnit\<close> return \<^verbatim>\<open>undefined\<close> and the whole
  store, the clock reading included, is as before.
\<close>

theorem update_missing_noop:
  "(i \<notin> fst ` set (users s) \<longrightarrow> MemStorage_updateUser i u s = (None, s)) \<and>
   (i \<notin> fst ` set (incidents s) \<longrightarrow> MemStorage_updateIncident i u s = (None, s)) \<and>
   (i \<notin> fst ` set (emergencyUnits s) \<longrightarrow> MemStorage_updateEmergencyUnit i u s = (None, s))"
  by (simp add: MemStorage_updateUser_def MemStorage_updateIncident_def
      MemStorage_updateEmergencyUnit_def map_of_absent)

theorem update_missing_noop_witness:
  "''nobody'' \<notin> fst ` set (users ex_mem) \<and>
   ''nobody'' \<notin> fst ` set (incidents ex_mem) \<and>
   ''nobody'' \<notin> fst ` set (emergencyUnits ex_mem) \<and>
   MemStorage_updateUser ''nobody'' [(''role'', JStr ''global_admin'')] ex_mem = (None, ex_mem) \<and>
   MemStorage_updateIncident ''nobody'' [(''status'', JStr ''closed'')] ex_mem = (None, ex_mem) \<and>
   MemStorage_updateEmergencyUnit ''nobody'' [(''status'', JStr ''busy'')] ex_mem = (None, ex_mem)"
proof -
  have a: "''nobody'' \<notin> fst ` set (users ex_mem)" by (simp add: ex_mem_def)
  have b: "''nobody'' \<notin> fst ` set (incidents ex_mem)" by (simp add: ex_mem_def)
  have c: "''nobody'' \<notin> fst ` set (emergencyUnits ex_mem)" by (simp add: ex_mem_def)
  show ?thesis
    using a b c
      update_missing_noop [of "''nobody''" ex_mem "[(''role'', JStr ''global_admin'')]"]
      update_missing_noop [of "''nobody''" ex_mem "[(''status'', JStr ''closed'')]"]
      update_missing_noop [of "''nobody''" ex_mem "[(''status'', JStr ''busy'')]"]
    by simp
qed

text \<open>
  Claim C10. For an incident that is in the store, \<^verbatim>\<open>updateIncident\<close> returns and stores
  an incident in which every property the update does not name is as it was (present with
  the same value, or absent), except \<^verbatim>\<open>updatedAt\<close>, which is the time of the update
  whatever the payload holds, the empty payload included. The other incidents, the order
  of the map and the other three maps are untouched.
\<close>

theorem updateIncident_frame:
  assumes "map_of (incidents s) i = Some inc"
  shows "\<exists>inc'. fst (MemStorage_updateIncident i u s) = Some inc' \<and>
      map_of (incidents (snd (MemStorage_updateIncident i u s))) i = Some inc' \<and>
      (\<forall>k. k \<notin> fst ` set u \<longrightarrow> k \<noteq> ''updatedAt'' \<longrightarrow> map_of inc' k = map_of inc k) \<and>
      jget inc' ''updatedAt'' = JDate (clock s (ticks s)) \<and>
      (\<forall>j. j \<noteq> i \<longrightarrow>
         map_of (incidents (snd (MemStorage_updateIncident i u s))) j = map_of (incidents s) j) \<and>
      map fst (incidents (snd (MemStorage_updateIncident i u s))) = map fst (incidents s) \<and>
      users (snd (MemStorage_updateIncident i u s)) = users s \<and>
      chatMessages (snd (MemStorage_updateIncident i u s)) = chatMessages s \<and>
      emergencyUnits (snd (MemStorage_updateIncident i u s)) = emergencyUnits s"
proof -
  let ?inc' = "spread (spread inc u) [(''updatedAt'', JDate (clock s (ticks s)))]"
  have run: "MemStorage_updateIncident i u s =
      (Some ?inc', s\<lparr>ticks := Suc (ticks s), incidents := AList.update i ?inc' (incidents s)\<rparr>)"
    using assms by (simp add: MemStorage_updateIncident_def Date_now_def Let_def)
  have frame: "\<forall>k. k \<notin> fst ` set u \<longrightarrow> k \<noteq> ''updatedAt'' \<longrightarrow> map_of ?inc' k = map_of inc k"
    by (simp add: map_of_spread map_add_def map_of_absent)
  have stamp: "jget ?inc' ''updatedAt'' = JDate (clock s (ticks s))"
    by (simp add: jget_spread)
  have present: "i \<in> fst ` set (incidents s)"
    using assms by (metis domI dom_map_of_conv_image_fst)
  have keys_same: "map fst (AList.update i ?inc' (incidents s)) = map fst (incidents s)"
    using present by (simp add: AList.update_keys)
  show ?thesis
    using frame stamp keys_same by (simp add: run AList.update_conv')
qed

theorem updateIncident_frame_witness:
  "map_of (incidents ex_mem) ''inc-1'' = Some ex_incident \<and>
   (\<exists>inc'. fst (MemStorage_updateIncident ''inc-1'' [] ex_mem) = Some inc' \<and>
      map_of (incidents (snd (MemStorage_updateIncident ''inc-1'' [] ex_mem))) ''inc-1'' = Some inc' \<and>
      map_of inc' ''title'' = Some (JStr ''Fire at market'') \<and>
      map_of inc' ''status'' = Some (JStr ''new'') \<and>
      jget inc' ''updatedAt'' = JDate 1700000000000 \<and>
      jget ex_incident ''updatedAt'' = JDate 1690000000000)"
proof -
  have h: "map_of (incidents ex_mem) ''inc-1'' = Some ex_incident"
    by (simp add: ex_mem_def)
  from updateIncident_frame [OF h, of "[]"]
  obtain inc' where
    r: "fst (MemStorage_updateIncident ''inc-1'' [] ex_mem) = Some inc'"
    and st: "map_of (incidents (snd (MemStorage_updateIncident ''inc-1'' [] ex_mem))) ''inc-1'' = Some inc'"
    and fr: "\<forall>k. k \<notin> fst ` set ([] :: obj) \<longrightarrow> k \<noteq> ''updatedAt'' \<longrightarrow> map_of inc' k = map_of ex_incident k"
    and up: "jget inc' ''updatedAt'' = JDate (clock ex_mem (ticks ex_mem))"
    by blast
  have t1: "map_of inc' ''title'' = Some (JStr ''Fire at market'')"
    using fr by (simp add: ex_incident_def)
  have t2: "map_of inc' ''status'' = Some (JStr ''new'')"
    using fr by (simp add: ex_incident_def)
  have t3: "jget inc' ''updatedAt'' = JDate 1700000000000"
    using up by (simp add: ex_mem_def)
  have t4: "jget ex_incident ''updatedAt'' = JDate 1690000000000"
    by (simp add: ex_incident_def jget_def)
  show ?thesis using h r st t1 t2 t3 t4 by blast
qed

section \<open>Properties of the sort and of the schema parser\<close>

lemma strict_eq_JStr [simp]: "strict_eq v (JStr x) = (v = JStr x)"
  by (cases v) auto












section \<open>Chat messages per incident\<close>





lemma set_update_subset: "set (AList.update k v al) \<subseteq> insert (k, v) (set al)"
  by (induction al) auto

lemma chat_dated_new: "chat_dated (MemStorage_new w)"
  by (simp add: MemStorage_new_def initializeSampleData_def chat_dated_def randomUUID_def
      Date_now_def Let_def jget_def)

lemma chat_dated_createChatMessage:
  assumes "chat_dated s"
  shows "chat_dated (snd (MemStorage_createChatMessage d s))"
proof -
  let ?m = "spread d [(''id'', JStr (keys s (drawn s))),
             (''messageType'', js_or (jget d ''messageType'') (JStr ''text'')),
             (''createdAt'', JDate (clock s (ticks s)))]"
  have run: "chatMessages (snd (MemStorage_createChatMessage d s)) =
      AList.update (keys s (drawn s)) ?m (chatMessages s)"
    by (simp add: MemStorage_createChatMessage_def randomUUID_def Date_now_def Let_def)
  have new: "jget ?m ''createdAt'' = JDate (clock s (ticks s))"
    by (simp add: jget_spread)
  have sub: "set (AList.update (keys s (drawn s)) ?m (chatMessages s))
          \<subseteq> insert (keys s (drawn s), ?m) (set (chatMessages s))"
    by (rule set_update_subset)
  have old: "\<forall>x \<in> set (chatMessages s).
       (case jget (snd x) ''createdAt'' of JDate t \<Rightarrow> True | _ \<Rightarrow> False)"
    using assms by (simp add: chat_dated_def list_all_iff)
  have "\<forall>x \<in> set (AList.update (keys s (drawn s)) ?m (chatMessages s)).
       (case jget (snd x) ''createdAt'' of JDate t \<Rightarrow> True | _ \<Rightarrow> False)"
  proof
    fix x assume "x \<in> set (AList.update (keys s (drawn s)) ?m (chatMessages s))"
    then have "x = (keys s (drawn s), ?m) \<or> x \<in> set (chatMessages s)"
      using sub by blast
    then show "case jget (snd x) ''createdAt'' of JDate t \<Rightarrow> True | _ \<Rightarrow> False"
      using old new by auto
  qed
  then show ?thesis
    by (simp add: chat_dated_def list_all_iff run)
qed



section \<open>Reporting an incident\<close>







lemma zparse_nonobject: "\<forall>ob. v \<noteq> JObj ob \<Longrightarrow> fst (zparse p (ZObject shape) v) \<noteq> []"
  by (cases v) (simp_all add: zparse.simps)













section \<open>Status updates\<close>












section \<open>Assignment\<close>















section \<open>Chat fan-out over the WebSocket server\<close>





section \<open>The simulated login\<close>

lemma handleSubmit_login:
  assumes "phoneNumber st \<noteq> []" and "name st \<noteq> []"
  shows "handleSubmit st =
     ([SetTimeout 1000
         [(''id'', JStr (show_nat (clock st (ticks st)))),
          (''phoneNumber'', JStr (phoneNumber st)),
          (''role'', JStr (role st)),
          (''serviceId'',
             (if role st = ''responder'' \<or> role st = ''service_admin''
              then JStr (serviceId st) else JUndefined)),
          (''name'', JStr (name st)),
          (''preferredLanguage'', JStr ''en''),
          (''isActive'', JBool True),
          (''createdAt'', JNum (real (clock st (Suc (ticks st))))),
          (''updatedAt'', JNum (real (clock st (Suc (Suc (ticks st))))))]],
      st\<lparr>isLoading := True, ticks := Suc (Suc (Suc (ticks st)))\<rparr>)"
  using assms by (simp add: handleSubmit_def Date_now_def Let_def)

text \<open>
  Claim C6, as stated, fails in one point: the user object is not built from the form
  inputs alone. Its \<^verbatim>\<open>id\<close>, \<^verbatim>\<open>createdAt\<close> and \<^verbatim>\<open>updatedAt\<close> are readings of the clock, so
  the same form submitted at two times gives two different user objects.
\<close>

theorem simulated_login_counterexample:
  "phoneNumber ex_login_later = phoneNumber ex_login \<and>
   name ex_login_later = name ex_login \<and>
   role ex_login_later = role ex_login \<and>
   serviceId ex_login_later = serviceId ex_login \<and>
   fst (handleSubmit ex_login) =
     [SetTimeout 1000
        [(''id'', JStr ''1700000000000''), (''phoneNumber'', JStr ''+233200000009''),
         (''role'', JStr ''global_admin''), (''serviceId'', JUndefined),
         (''name'', JStr ''Nobody Known''), (''preferredLanguage'', JStr ''en''),
         (''isActive'', JBool True), (''createdAt'', JNum 1700000000001),
         (''updatedAt'', JNum 1700000000002)]] \<and>
   fst (handleSubmit ex_login_later) =
     [SetTimeout 1000
        [(''id'', JStr ''1700000060000''), (''phoneNumber'', JStr ''+233200000009''),
         (''role'', JStr ''global_admin''), (''serviceId'', JUndefined),
         (''name'', JStr ''Nobody Known''), (''preferredLanguage'', JStr ''en''),
         (''isActive'', JBool True), (''createdAt'', JNum 1700000060001),
         (''updatedAt'', JNum 1700000060002)]]"
  by (simp add: ex_login_later_def ex_login_def handleSubmit_def Date_now_def Let_def)

text \<open>
  Claim C6, amended. For every non-empty phone number and non-empty name in the form,
  \<^verbatim>\<open>handleSubmit\<close> raises no alert and sets exactly one timer, of 1000 milliseconds, whose
  callback passes a user object to \<^verbatim>\<open>onLogin\<close>: login never fails. The user object has
  nine properties and no other. The phone number,
  name and role of that user are the form's, whatever role was selected (an administrator
  role included), the service id is the form's for the two service roles and
  \<^verbatim>\<open>undefined\<close> otherwise; the id and the two time stamps are clock readings and the
  language and the active flag are constants. The form state holds no password or code
  and the function reads nothing but the form and the clock: no stored credential or user
  record takes part.
\<close>

theorem simulated_login_always_succeeds:
  "phoneNumber st \<noteq> [] \<and> name st \<noteq> [] \<longrightarrow>
     (\<exists>user. fst (handleSubmit st) = [SetTimeout 1000 user] \<and>
        fst (login_timeout user (snd (handleSubmit st))) = user \<and>
        isLoading (snd (login_timeout user (snd (handleSubmit st)))) = False \<and>
        jget user ''phoneNumber'' = JStr (phoneNumber st) \<and>
        jget user ''name'' = JStr (name st) \<and>
        jget user ''role'' = JStr (role st) \<and>
        jget user ''serviceId'' =
          (if role st = ''responder'' \<or> role st = ''service_admin''
           then JStr (serviceId st) else JUndefined) \<and>
        jget user ''id'' = JStr (show_nat (clock st (ticks st))) \<and>
        jget user ''createdAt'' = JNum (real (clock st (Suc (ticks st)))) \<and>
        jget user ''updatedAt'' = JNum (real (clock st (Suc (Suc (ticks st))))) \<and>
        jget user ''preferredLanguage'' = JStr ''en'' \<and>
        jget user ''isActive'' = JBool True \<and>
        fst ` set user = {''id'', ''phoneNumber'', ''role'', ''serviceId'', ''name'',
                          ''preferredLanguage'', ''isActive'', ''createdAt'', ''updatedAt''})"
proof
  assume "phoneNumber st \<noteq> [] \<and> name st \<noteq> []"
  then have run: "handleSubmit st = 
     ([SetTimeout 1000
         [(''id'', JStr (show_nat (clock st (ticks st)))),
          (''phoneNumber'', JStr (phoneNumber st)),
          (''role'', JStr (role st)),
          (''serviceId'',
             (if role st = ''responder'' \<or> role st = ''service_admin''
              then JStr (serviceId st) else JUndefined)),
          (''name'', JStr (name st)),
          (''preferredLanguage'', JStr ''en''),
          (''isActive'', JBool True),
          (''createdAt'', JNum (real (clock st (Suc (ticks st))))),
          (''updatedAt'', JNum (real (clock st (Suc (Suc (ticks st))))))]],
      st\<lparr>isLoading := True, ticks := Suc (Suc (Suc (ticks st)))\<rparr>)"
    using handleSubmit_login [of st] by simp
  show "\<exists>user. fst (handleSubmit st) = [SetTimeout 1000 user] \<and>
        fst (login_timeout user (snd (handleSubmit st))) = user \<and>
        isLoading (snd (login_timeout user (snd (handleSubmit st)))) = False \<and>
        jget user ''phoneNumber'' = JStr (phoneNumber st) \<and>
        jget user ''name'' = JStr (name st) \<and>
        jget user ''role'' = JStr (role st) \<and>
        jget user ''serviceId'' =
          (if role st = ''responder'' \<or> role st = ''service_admin''
           then JStr (serviceId st) else JUndefined) \<and>
        jget user ''id'' = JStr (show_nat (clock st (ticks st))) \<and>
        jget user ''createdAt'' = JNum (real (clock st (Suc (ticks st)))) \<and>
        jget user ''updatedAt'' = JNum (real (clock st (Suc (Suc (ticks st))))) \<and>
        jget user ''preferredLanguage'' = JStr ''en'' \<and>
        jget user ''isActive'' = JBool True \<and>
        fst ` set user = {''id'', ''phoneNumber'', ''role'', ''serviceId'', ''name'',
                          ''preferredLanguage'', ''isActive'', ''createdAt'', ''updatedAt''}"
    unfolding run by (simp add: login_timeout_def jget_def)
qed

theorem simulated_login_always_succeeds_witness:
  "phoneNumber ex_login \<noteq> [] \<and> name ex_login \<noteq> [] \<and>
   (\<exists>user. fst (handleSubmit ex_login) = [SetTimeout 1000 user] \<and>
      fst (login_timeout user (snd (handleSubmit ex_login))) = user \<and>
      jget user ''phoneNumber'' = JStr ''+233200000009'' \<and>
      jget user ''name'' = JStr ''Nobody Known'' \<and>
      jget user ''role'' = JStr ''global_admin'' \<and>
      jget user ''serviceId'' = JUndefined)"
proof -
  have a: "phoneNumber ex_login \<noteq> [] \<and> name ex_login \<noteq> []"
    by (simp add: ex_login_def)
  have b: "phoneNumber ex_login = ''+233200000009''" "name ex_login = ''Nobody Known''"
    "role ex_login = ''global_admin''"
    by (simp_all add: ex_login_def)
  from simulated_login_always_succeeds [of ex_login] a
  obtain user where
    u: "fst (handleSubmit ex_login) = [SetTimeout 1000 user]"
      "fst (login_timeout user (snd (handleSubmit ex_login))) = user"
      "jget user ''phoneNumber'' = JStr (phoneNumber ex_login)"
      "jget user ''name'' = JStr (name ex_login)"
      "jget user ''role'' = JStr (role ex_login)"
      "jget user ''serviceId'' =
          (if role ex_login = ''responder'' \<or> role ex_login = ''service_admin''
           then JStr (serviceId ex_login) else JUndefined)"
    by blast
  have s: "jget user ''serviceId'' = JUndefined"
    using u(6) by (simp add: b)
  show ?thesis
    using a u(1-5) s unfolding b by blast
qed

section \<open>The dispatcher console and resolving\<close>








end
